theory Spec2Isabelle
  imports Main
begin

section \<open>Python values and built-ins used by the scripts\<close>

text \<open>
  The scripts are Python. Their exceptions are modelled as values of the type \<open>error\<close>;
  a function that can raise returns \<open>error + 'a\<close> with \<open>Inl\<close> for the exception.
  The message of an exception is not modelled, only its class. \<open>ConfigError\<close> and
  \<open>ProviderError\<close> are the two classes of \<^verbatim>\<open>common.py\<close>; the others are Python's
  own, and \<open>RequestError\<close> is \<^verbatim>\<open>httpx.RequestError\<close>.
  Strings are Isabelle strings; the model covers ASCII text.
\<close>

datatype error =
    ConfigError
  | ProviderError
  | ValueError
  | TypeError
  | KeyError
  | IndexError
  | AttributeError
  | RequestError
  | OtherException

text \<open>\<^verbatim>\<open>s.endswith(suf)\<close> and \<^verbatim>\<open>s.rstrip(c)\<close> for a one-character \<open>c\<close>.\<close>

definition endswith :: "string \<Rightarrow> string \<Rightarrow> bool" where
  "endswith s suf = (length suf \<le> length s \<and> drop (length s - length suf) s = suf)"

definition rstrip :: "char \<Rightarrow> string \<Rightarrow> string" where
  "rstrip c s = rev (dropWhile (\<lambda>x. x = c) (rev s))"

section \<open>FQDN and subname derivation\<close>

text \<open>
  \<^verbatim>\<open>failover.fqdn(domain, name)\<close>, lines 35-42 of \<^verbatim>\<open>failover.py\<close>.
\<close>

definition fqdn :: "string \<Rightarrow> string \<Rightarrow> string" where
  "fqdn domain name =
     (if endswith name ''.'' then rstrip CHR ''.'' name
      else if name = domain then domain
      else if endswith name (''.'' @ domain) then name
      else name @ ''.'' @ domain)"

text \<open>
  The dataclass \<^verbatim>\<open>DnsRecordConfig\<close> of \<^verbatim>\<open>common.py\<close>. A dataclass does not check
  the types of its fields, and \<^verbatim>\<open>load_zone_config\<close> stores \<open>domain\<close> and \<open>name\<close> as
  it finds them in the YAML document, so the type of these two fields is a parameter:
  \<open>string\<close> where the properties \<open>fqdn\<close> and \<open>subname\<close> are computed.
\<close>

record 'n DnsRecordConfig =
  domain :: 'n
  name :: 'n
  rtype :: string
  ttl :: int
  rvalues :: "string list"

text \<open>The property \<^verbatim>\<open>DnsRecordConfig.fqdn\<close>, lines 34-42 of \<^verbatim>\<open>common.py\<close>.\<close>

definition DnsRecordConfig_fqdn :: "string DnsRecordConfig \<Rightarrow> string" where
  "DnsRecordConfig_fqdn self =
     (if endswith (name self) ''.'' then rstrip CHR ''.'' (name self)
      else if name self = domain self then domain self
      else if endswith (name self) (''.'' @ domain self) then name self
      else name self @ ''.'' @ domain self)"

text \<open>
  The property \<^verbatim>\<open>DnsRecordConfig.subname\<close>, lines 44-57. The slice
  \<^verbatim>\<open>self.fqdn[: -len(suffix)]\<close> drops the last \<open>length suffix\<close> characters; \<open>suffix\<close>
  is never empty.
\<close>

definition subname :: "string DnsRecordConfig \<Rightarrow> error + string" where
  "subname self =
     (if DnsRecordConfig_fqdn self = domain self then Inr ''@''
      else let suffix = ''.'' @ domain self in
        if endswith (DnsRecordConfig_fqdn self) suffix
        then Inr (take (length (DnsRecordConfig_fqdn self) - length suffix) (DnsRecordConfig_fqdn self))
        else Inl ConfigError)"


section \<open>Parsed YAML and JSON documents\<close>

text \<open>
  \<^verbatim>\<open>yaml.safe_load\<close> and \<^verbatim>\<open>resp.json()\<close> return Python objects. The model has the
  kinds that a JSON document and a plain YAML document are made of: \<open>None\<close>, booleans,
  integers, strings, lists and dictionaries (floats, dates and binary values are left
  out). A dictionary is an association list read through its first matching key.
\<close>

datatype pyval =
    PNone
  | PBool bool
  | PInt int
  | PStr string
  | PList "pyval list"
  | PDict "(pyval \<times> pyval) list"

text \<open>Truth value of an object, as \<^verbatim>\<open>not x\<close>, \<^verbatim>\<open>x or y\<close> and \<^verbatim>\<open>if x\<close> take it.\<close>

fun truthy :: "pyval \<Rightarrow> bool" where
  "truthy PNone = False"
| "truthy (PBool b) = b"
| "truthy (PInt i) = (i \<noteq> 0)"
| "truthy (PStr s) = (s \<noteq> [])"
| "truthy (PList xs) = (xs \<noteq> [])"
| "truthy (PDict kvs) = (kvs \<noteq> [])"

text \<open>\<^verbatim>\<open>x or y\<close>.\<close>

definition py_or :: "pyval \<Rightarrow> pyval \<Rightarrow> pyval" where
  "py_or x y = (if truthy x then x else y)"

text \<open>
  Keys of a dictionary are compared as Python compares them: a boolean is the integer
  0 or 1, every other scalar is equal to itself only.
\<close>

fun num_of :: "pyval \<Rightarrow> int option" where
  "num_of (PBool b) = Some (if b then 1 else 0)"
| "num_of (PInt i) = Some i"
| "num_of _ = None"

definition key_eq :: "pyval \<Rightarrow> pyval \<Rightarrow> bool" where
  "key_eq a b =
     (case (num_of a, num_of b) of
        (Some x, Some y) \<Rightarrow> x = y
      | (None, None) \<Rightarrow> a = b
      | _ \<Rightarrow> False)"

definition dict_lookup :: "(pyval \<times> pyval) list \<Rightarrow> pyval \<Rightarrow> pyval option" where
  "dict_lookup kvs k = map_option snd (find (\<lambda>kv. key_eq (fst kv) k) kvs)"

text \<open>\<^verbatim>\<open>d.get(key, default)\<close> on a dictionary \<open>d\<close>, and \<^verbatim>\<open>key in d\<close>.\<close>

definition dict_get :: "(pyval \<times> pyval) list \<Rightarrow> string \<Rightarrow> pyval \<Rightarrow> pyval" where
  "dict_get kvs key dflt = (case dict_lookup kvs (PStr key) of Some v \<Rightarrow> v | None \<Rightarrow> dflt)"


text \<open>
  \<^verbatim>\<open>x.get(key)\<close> on any object: only a dictionary has the method.
\<close>

definition py_get :: "pyval \<Rightarrow> string \<Rightarrow> error + pyval" where
  "py_get x key =
     (case x of PDict kvs \<Rightarrow> Inr (dict_get kvs key PNone) | _ \<Rightarrow> Inl AttributeError)"

text \<open>
  \<^verbatim>\<open>xs[i]\<close> on a sequence: the index \<open>i\<close> is a position from the front when it is
  not negative and from the back when it is; outside both ranges Python raises.
\<close>

definition seq_index :: "'a list \<Rightarrow> int \<Rightarrow> error + 'a" where
  "seq_index xs i =
     (if 0 \<le> i \<and> i < int (length xs) then Inr (xs ! nat i)
      else if i < 0 \<and> - int (length xs) \<le> i then Inr (xs ! nat (int (length xs) + i))
      else Inl IndexError)"

text \<open>\<^verbatim>\<open>x[k]\<close> on any object.\<close>

fun py_getitem :: "pyval \<Rightarrow> pyval \<Rightarrow> error + pyval" where
  "py_getitem (PDict kvs) (PList k) = Inl TypeError"
| "py_getitem (PDict kvs) (PDict k) = Inl TypeError"
| "py_getitem (PDict kvs) k =
     (case dict_lookup kvs k of Some v \<Rightarrow> Inr v | None \<Rightarrow> Inl KeyError)"
| "py_getitem (PList xs) k =
     (case num_of k of Some i \<Rightarrow> seq_index xs i | None \<Rightarrow> Inl TypeError)"
| "py_getitem (PStr s) k =
     (case num_of k of
        Some i \<Rightarrow> (case seq_index s i of Inl e \<Rightarrow> Inl e | Inr c \<Rightarrow> Inr (PStr [c]))
      | None \<Rightarrow> Inl TypeError)"
| "py_getitem _ k = Inl TypeError"


subsection \<open>\<^verbatim>\<open>str(x)\<close>\<close>

fun nat_str :: "nat \<Rightarrow> string" where
  "nat_str n =
     (if n < 10 then [char_of (48 + n)]
      else nat_str (n div 10) @ [char_of (48 + n mod 10)])"

declare nat_str.simps [simp del]

definition int_str :: "int \<Rightarrow> string" where
  "int_str i = (if i < 0 then ''-'' @ nat_str (nat (- i)) else nat_str (nat i))"

definition hex_digit :: "nat \<Rightarrow> char" where
  "hex_digit d = (if d < 10 then char_of (48 + d) else char_of (87 + d))"

text \<open>
  \<^verbatim>\<open>repr\<close> of a string: single quotes, unless the string has a single quote and no
  double quote; backslash, the quote and the control characters are escaped.
\<close>

definition repr_char :: "char \<Rightarrow> char \<Rightarrow> string" where
  "repr_char q c =
     (let n = (of_char c :: nat) in
      if c = CHR 0x5C then [CHR 0x5C, CHR 0x5C]
      else if c = q then [CHR 0x5C, q]
      else if c = CHR 0x0A then [CHR 0x5C, CHR ''n'']
      else if c = CHR 0x0D then [CHR 0x5C, CHR ''r'']
      else if c = CHR 0x09 then [CHR 0x5C, CHR ''t'']
      else if n < 32 \<or> n = 127 \<or> (128 \<le> n \<and> n \<le> 160) \<or> n = 173
        then [CHR 0x5C, CHR ''x'', hex_digit (n div 16), hex_digit (n mod 16)]
      else [c])"

definition repr_str :: "string \<Rightarrow> string" where
  "repr_str s =
     (let q = (if CHR 0x27 \<in> set s \<and> CHR 0x22 \<notin> set s then CHR 0x22 else CHR 0x27)
      in [q] @ concat (map (repr_char q) s) @ [q])"

fun join :: "string \<Rightarrow> string list \<Rightarrow> string" where
  "join sep [] = []"
| "join sep [x] = x"
| "join sep (x # y # ys) = x @ sep @ join sep (y # ys)"

fun py_repr :: "pyval \<Rightarrow> string" where
  "py_repr PNone = ''None''"
| "py_repr (PBool b) = (if b then ''True'' else ''False'')"
| "py_repr (PInt i) = int_str i"
| "py_repr (PStr s) = repr_str s"
| "py_repr (PList xs) = ''['' @ join '', '' (map py_repr xs) @ '']''"
| "py_repr (PDict kvs) =
     ''{'' @ join '', '' (map (\<lambda>kv. py_repr (fst kv) @ '': '' @ py_repr (snd kv)) kvs) @ ''}''"

definition py_str :: "pyval \<Rightarrow> string" where
  "py_str x = (case x of PStr s \<Rightarrow> s | _ \<Rightarrow> py_repr x)"



subsection \<open>\<^verbatim>\<open>int(x)\<close>\<close>








section \<open>Zone configuration\<close>




text \<open>\<^verbatim>\<open>get_env_or_raise\<close>, lines 239-243; the process environment is a parameter.\<close>

definition get_env_or_raise :: "(string \<Rightarrow> string option) \<Rightarrow> string \<Rightarrow> error + string" where
  "get_env_or_raise env key =
     (case env key of
        None \<Rightarrow> Inl ConfigError
      | Some val \<Rightarrow> if val = [] then Inl ConfigError else Inr val)"

section \<open>HTTP calls\<close>

text \<open>
  A call through \<^verbatim>\<open>httpx\<close> is the only effect of the scripts that the model keeps
  (what they print is left out). A request names the client it goes through (base URL,
  headers and timeout in seconds), the method, the path, the query parameters and the
  JSON payload. A response has a status code and the document that \<^verbatim>\<open>resp.json()\<close>
  returns, \<open>None\<close> when the body is not JSON.

  The network is a parameter \<open>w\<close>: given the requests sent so far and the request
  sent now, it says whether \<^verbatim>\<open>httpx\<close> returns a response or raises, and which
  exception. A computation takes the list of requests sent so far and returns its
  result, or the exception it raised, with the list extended by the requests it sent.
\<close>

datatype http_method = GET | PUT | POST

record http_client =
  base_url :: string
  headers :: "(string \<times> string) list"
  timeout :: int

record request =
  req_client :: http_client
  req_method :: http_method
  req_url :: string
  req_params :: "(string \<times> string) list"
  req_json :: "pyval option"

record response =
  status_code :: int
  body_json :: "pyval option"

datatype outcome = Responded response | Raised error

type_synonym world = "request list \<Rightarrow> request \<Rightarrow> outcome"

type_synonym 'a io = "request list \<Rightarrow> (error + 'a) \<times> request list"

definition io_return :: "'a \<Rightarrow> 'a io" where
  "io_return x tr = (Inr x, tr)"

definition io_throw :: "error \<Rightarrow> 'a io" where
  "io_throw e tr = (Inl e, tr)"

definition io_lift :: "error + 'a \<Rightarrow> 'a io" where
  "io_lift r tr = (r, tr)"

definition io_bind :: "'a io \<Rightarrow> ('a \<Rightarrow> 'b io) \<Rightarrow> 'b io" where
  "io_bind m f tr = (case m tr of (Inl e, tr') \<Rightarrow> (Inl e, tr') | (Inr x, tr') \<Rightarrow> f x tr')"

definition http_send :: "world \<Rightarrow> request \<Rightarrow> response io" where
  "http_send w rq tr =
     (case w tr rq of Responded resp \<Rightarrow> Inr resp | Raised e \<Rightarrow> Inl e, tr @ [rq])"

text \<open>\<^verbatim>\<open>resp.json()\<close>: a body that is not JSON raises a \<^verbatim>\<open>ValueError\<close>.\<close>

definition resp_json :: "response \<Rightarrow> error + pyval" where
  "resp_json resp = (case body_json resp of None \<Rightarrow> Inl ValueError | Some v \<Rightarrow> Inr v)"

section \<open>Provider clients\<close>

text \<open>
  \<^verbatim>\<open>CloudflareClient\<close>, lines 127-198 of \<^verbatim>\<open>common.py\<close>. The constructor strips the
  slashes at the end of the base URL and builds the \<^verbatim>\<open>httpx.Client\<close>.
\<close>

record CloudflareClient =
  cf_api_token :: string
  cf_base_url :: string
  cf_http :: http_client

definition CloudflareClient_init :: "string \<Rightarrow> string \<Rightarrow> CloudflareClient" where
  "CloudflareClient_init token base =
     \<lparr>cf_api_token = token,
      cf_base_url = rstrip CHR ''/'' base,
      cf_http = \<lparr>base_url = rstrip CHR ''/'' base,
                 headers = [(''Authorization'', ''Bearer '' @ token),
                            (''Content-Type'', ''application/json'')],
                 timeout = 10\<rparr>\<rparr>"

definition cloudflare_default_url :: string where
  "cloudflare_default_url = ''https://api.cloudflare.com/client/v4''"

text \<open>The request of line 141 and \<^verbatim>\<open>get_zone_id\<close>, lines 140-148.\<close>

definition zones_request :: "CloudflareClient \<Rightarrow> string \<Rightarrow> request" where
  "zones_request self zone_name =
     \<lparr>req_client = cf_http self, req_method = GET, req_url = ''/zones'',
      req_params = [(''name'', zone_name)], req_json = None\<rparr>"

definition get_zone_id :: "world \<Rightarrow> CloudflareClient \<Rightarrow> string \<Rightarrow> pyval io" where
  "get_zone_id w self zone_name =
     io_bind (http_send w (zones_request self zone_name))
       (\<lambda>resp.
          if status_code resp \<noteq> 200 then io_throw ProviderError
          else io_bind (io_lift (resp_json resp)) (\<lambda>result.
               io_bind (io_lift (py_get result ''result'')) (\<lambda>r.
                 let zones = py_or r (PList [])
                 in if \<not> truthy zones then io_throw ProviderError
                    else io_bind (io_lift (py_getitem zones (PInt 0))) (\<lambda>z.
                         io_lift (py_getitem z (PStr ''id''))))))"

text \<open>
  \<^verbatim>\<open>get_dns_record\<close>, lines 150-163, returns the first record, or \<open>None\<close> (here
  \<open>PNone\<close>). The zone id is formatted into the path as \<^verbatim>\<open>str\<close> formats it.
\<close>

definition records_request :: "CloudflareClient \<Rightarrow> pyval \<Rightarrow> string \<Rightarrow> string \<Rightarrow> request" where
  "records_request self zone_id nm rt =
     \<lparr>req_client = cf_http self, req_method = GET,
      req_url = ''/zones/'' @ py_str zone_id @ ''/dns_records'',
      req_params = [(''type'', rt), (''name'', nm)], req_json = None\<rparr>"

definition get_dns_record ::
  "world \<Rightarrow> CloudflareClient \<Rightarrow> pyval \<Rightarrow> string \<Rightarrow> string \<Rightarrow> pyval io"
where
  "get_dns_record w self zone_id nm rt =
     io_bind (http_send w (records_request self zone_id nm rt))
       (\<lambda>resp.
          if status_code resp \<noteq> 200 then io_throw ProviderError
          else io_bind (io_lift (resp_json resp)) (\<lambda>result.
               io_bind (io_lift (py_get result ''result'')) (\<lambda>r.
                 let records = py_or r (PList [])
                 in if \<not> truthy records then io_return PNone
                    else io_lift (py_getitem records (PInt 0)))))"

text \<open>
  \<^verbatim>\<open>upsert_dns_record\<close>, lines 165-198: the payload, the update (\<open>PUT\<close>) of an
  existing record and the creation (\<open>POST\<close>) of a new one.
\<close>

definition upsert_payload :: "string \<Rightarrow> string \<Rightarrow> string \<Rightarrow> int \<Rightarrow> bool option \<Rightarrow> pyval" where
  "upsert_payload rt nm content t proxied =
     PDict ([(PStr ''type'', PStr rt), (PStr ''name'', PStr nm),
             (PStr ''content'', PStr content), (PStr ''ttl'', PInt t)]
            @ (case proxied of
                 None \<Rightarrow> []
               | Some b \<Rightarrow>
                   if rt \<in> {''A'', ''AAAA'', ''CNAME''} then [(PStr ''proxied'', PBool b)] else []))"

definition update_request :: "CloudflareClient \<Rightarrow> pyval \<Rightarrow> pyval \<Rightarrow> pyval \<Rightarrow> request" where
  "update_request self zone_id record_id payload =
     \<lparr>req_client = cf_http self, req_method = PUT,
      req_url = ''/zones/'' @ py_str zone_id @ ''/dns_records/'' @ py_str record_id,
      req_params = [], req_json = Some payload\<rparr>"

definition create_request :: "CloudflareClient \<Rightarrow> pyval \<Rightarrow> pyval \<Rightarrow> request" where
  "create_request self zone_id payload =
     \<lparr>req_client = cf_http self, req_method = POST,
      req_url = ''/zones/'' @ py_str zone_id @ ''/dns_records'',
      req_params = [], req_json = Some payload\<rparr>"

definition upsert_dns_record ::
  "world \<Rightarrow> CloudflareClient \<Rightarrow> pyval \<Rightarrow> string \<Rightarrow> string \<Rightarrow> string \<Rightarrow> int \<Rightarrow> bool option
     \<Rightarrow> unit io"
where
  "upsert_dns_record w self zone_id nm rt content t proxied =
     io_bind (get_dns_record w self zone_id nm rt) (\<lambda>existing.
       let payload = upsert_payload rt nm content t proxied
       in if truthy existing
          then io_bind (io_lift (py_getitem existing (PStr ''id''))) (\<lambda>record_id.
               io_bind (http_send w (update_request self zone_id record_id payload))
                 (\<lambda>resp. if status_code resp \<notin> {200, 201} then io_throw ProviderError
                          else io_return ()))
          else io_bind (http_send w (create_request self zone_id payload))
                 (\<lambda>resp. if status_code resp \<notin> {200, 201} then io_throw ProviderError
                          else io_return ()))"

text \<open>\<^verbatim>\<open>DeSecClient\<close>, lines 201-236, and its constructor.\<close>

record DeSecClient =
  ds_api_token :: string
  ds_base_url :: string
  ds_http :: http_client

definition DeSecClient_init :: "string \<Rightarrow> string \<Rightarrow> DeSecClient" where
  "DeSecClient_init token base =
     \<lparr>ds_api_token = token,
      ds_base_url = rstrip CHR ''/'' base,
      ds_http = \<lparr>base_url = rstrip CHR ''/'' base,
                 headers = [(''Authorization'', ''Token '' @ token),
                            (''Content-Type'', ''application/json'')],
                 timeout = 10\<rparr>\<rparr>"

definition desec_default_url :: string where
  "desec_default_url = ''https://desec.io/api/v1''"

text \<open>\<^verbatim>\<open>upsert_rrset\<close>, lines 214-236: the request of lines 224-231 and its check.\<close>

definition rrset_request ::
  "DeSecClient \<Rightarrow> string \<Rightarrow> string \<Rightarrow> string \<Rightarrow> int \<Rightarrow> string list \<Rightarrow> request"
where
  "rrset_request self dmn sub rt t records =
     (let url = ''/domains/'' @ dmn @ ''/rrsets/'' @ sub @ ''/'' @ rt @ ''/'';
          payload = PDict [(PStr ''subname'', PStr sub), (PStr ''type'', PStr rt),
                           (PStr ''ttl'', PInt t), (PStr ''records'', PList (map PStr records))]
      in \<lparr>req_client = ds_http self, req_method = PUT, req_url = url,
          req_params = [], req_json = Some payload\<rparr>)"

definition upsert_rrset ::
  "world \<Rightarrow> DeSecClient \<Rightarrow> string \<Rightarrow> string \<Rightarrow> string \<Rightarrow> int \<Rightarrow> string list \<Rightarrow> unit io"
where
  "upsert_rrset w self dmn sub rt t records =
     io_bind (http_send w (rrset_request self dmn sub rt t records))
       (\<lambda>resp. if status_code resp \<notin> {200, 201} then io_throw ProviderError
                else io_return ())"

section \<open>Failover\<close>

text \<open>
  \<^verbatim>\<open>check_health\<close>, lines 27-32 of \<^verbatim>\<open>failover.py\<close>: a plain \<^verbatim>\<open>httpx.get\<close> with the
  given timeout. Only \<^verbatim>\<open>httpx.RequestError\<close> is caught; any other exception leaves
  the function.
\<close>

definition health_request :: "string \<Rightarrow> int \<Rightarrow> request" where
  "health_request url timeout_s =
     \<lparr>req_client = \<lparr>base_url = [], headers = [], timeout = timeout_s\<rparr>,
      req_method = GET, req_url = url, req_params = [], req_json = None\<rparr>"

definition check_health :: "world \<Rightarrow> string \<Rightarrow> int \<Rightarrow> int \<Rightarrow> bool io" where
  "check_health w url expected timeout_s tr =
     (case http_send w (health_request url timeout_s) tr of
        (Inr resp, tr') \<Rightarrow> (Inr (status_code resp = expected), tr')
      | (Inl e, tr') \<Rightarrow> (if e = RequestError then Inr False else Inl e, tr'))"

text \<open>\<^verbatim>\<open>current_target_info\<close>, lines 45-56.\<close>

definition current_target_info :: "world \<Rightarrow> CloudflareClient \<Rightarrow> pyval \<Rightarrow> string \<Rightarrow> pyval io" where
  "current_target_info w cf zone_id router =
     io_bind (get_dns_record w cf zone_id router ''CNAME'') (\<lambda>rec.
       if \<not> truthy rec then io_return PNone else io_lift (py_get rec ''content''))"

text \<open>
  \<^verbatim>\<open>set_router_target\<close>, lines 59-99: Cloudflare first, then deSEC. The subname is
  computed, and may raise, after the Cloudflare call and before the deSEC call.
\<close>

definition set_router_target ::
  "world \<Rightarrow> CloudflareClient \<Rightarrow> DeSecClient \<Rightarrow> string \<Rightarrow> pyval \<Rightarrow> string \<Rightarrow> string \<Rightarrow> string
     \<Rightarrow> int \<Rightarrow> unit io"
where
  "set_router_target w cf desec zone_name zone_id router_name router new_target t =
     io_bind (upsert_dns_record w cf zone_id router ''CNAME'' new_target t None) (\<lambda>_.
       let rec_cfg = \<lparr>domain = zone_name, name = router, rtype = ''CNAME'', ttl = t,
                      rvalues = [if \<not> endswith new_target ''.'' then new_target @ ''.''
                                 else new_target]\<rparr>
       in io_bind (io_lift (subname rec_cfg)) (\<lambda>sub.
            upsert_rrset w desec zone_name sub ''CNAME'' t (rvalues rec_cfg)))"

text \<open>
  The failover configuration is the mapping that \<^verbatim>\<open>load_failover_config\<close> returns,
  with every value at the type \<^verbatim>\<open>run_failover\<close> uses it at: strings, and the two
  integers after \<^verbatim>\<open>int(...)\<close> (lines 105-113).
\<close>

record failover_cfg =
  cfg_domain :: string
  router_record :: string
  primary_target :: string
  secondary_target :: string
  primary_check_url :: string
  secondary_check_url :: string
  expected_status :: int
  timeout_seconds :: int

text \<open>Lines 115-117.\<close>

definition router_fqdn :: "failover_cfg \<Rightarrow> string" where
  "router_fqdn cfg = fqdn (cfg_domain cfg) (router_record cfg)"

definition primary_fqdn :: "failover_cfg \<Rightarrow> string" where
  "primary_fqdn cfg = fqdn (cfg_domain cfg) (primary_target cfg)"

definition secondary_fqdn :: "failover_cfg \<Rightarrow> string" where
  "secondary_fqdn cfg = fqdn (cfg_domain cfg) (secondary_target cfg)"

text \<open>Lines 119-125: the two tokens, the two clients and the zone id.\<close>

record failover_ctx =
  ctx_cf :: CloudflareClient
  ctx_desec :: DeSecClient
  ctx_zone_id :: pyval

definition failover_setup ::
  "failover_cfg \<Rightarrow> (string \<Rightarrow> string option) \<Rightarrow> world \<Rightarrow> failover_ctx io"
where
  "failover_setup cfg env w =
     io_bind (io_lift (get_env_or_raise env ''CF_API_TOKEN'')) (\<lambda>cf_token.
     io_bind (io_lift (get_env_or_raise env ''DESEC_API_TOKEN'')) (\<lambda>desec_token.
       let cf = CloudflareClient_init cf_token cloudflare_default_url;
           desec = DeSecClient_init desec_token desec_default_url
       in io_bind (get_zone_id w cf (cfg_domain cfg)) (\<lambda>zone_id.
            io_return \<lparr>ctx_cf = cf, ctx_desec = desec, ctx_zone_id = zone_id\<rparr>)))"

text \<open>
  Lines 132-144: the health checks and the choice of \<^verbatim>\<open>desired_target\<close>. The result
  \<open>None\<close> is the early \<^verbatim>\<open>return\<close> of line 144.
\<close>

definition desired_target :: "world \<Rightarrow> failover_cfg \<Rightarrow> string option io" where
  "desired_target w cfg =
     io_bind (check_health w (primary_check_url cfg) (expected_status cfg) (timeout_seconds cfg))
       (\<lambda>primary_ok.
          if primary_ok then io_return (Some (primary_fqdn cfg))
          else io_bind (check_health w (secondary_check_url cfg) (expected_status cfg)
                          (timeout_seconds cfg))
                 (\<lambda>secondary_ok.
                    if secondary_ok then io_return (Some (secondary_fqdn cfg))
                    else io_return None))"

text \<open>Lines 146-163: read the current target, compare, and update on a difference.\<close>

definition apply_target :: "world \<Rightarrow> failover_cfg \<Rightarrow> failover_ctx \<Rightarrow> string \<Rightarrow> unit io" where
  "apply_target w cfg ctx target =
     io_bind (current_target_info w (ctx_cf ctx) (ctx_zone_id ctx) (router_fqdn cfg)) (\<lambda>current.
       if current = PStr target then io_return ()
       else set_router_target w (ctx_cf ctx) (ctx_desec ctx) (cfg_domain cfg) (ctx_zone_id ctx)
              (router_record cfg) (router_fqdn cfg) target 60)"

text \<open>\<^verbatim>\<open>run_failover\<close>, lines 102-165, after the configuration is loaded.\<close>

definition run_failover ::
  "failover_cfg \<Rightarrow> (string \<Rightarrow> string option) \<Rightarrow> world \<Rightarrow> unit io"
where
  "run_failover cfg env w =
     io_bind (failover_setup cfg env w) (\<lambda>ctx.
     io_bind (desired_target w cfg) (\<lambda>desired.
       case desired of
         None \<Rightarrow> io_return ()
       | Some target \<Rightarrow> apply_target w cfg ctx target))"

text \<open>
  A provider write is a request that is not a \<open>GET\<close>: the scripts send \<open>PUT\<close> and
  \<open>POST\<close> to the two providers only.
\<close>

definition is_write :: "request \<Rightarrow> bool" where
  "is_write rq = (req_method rq \<noteq> GET)"

definition provider_writes :: "request list \<Rightarrow> request list" where
  "provider_writes tr = filter is_write tr"

section \<open>Example environments\<close>

text \<open>
  A network that answers the \<open>n\<close>-th request of a run with the \<open>n\<close>-th outcome of a
  list, and with a transport failure once the list is used up.
\<close>

definition scripted :: "outcome list \<Rightarrow> world" where
  "scripted outs tr rq = (if length tr < length outs then outs ! length tr else Raised RequestError)"

definition ok_json :: "int \<Rightarrow> pyval \<Rightarrow> outcome" where
  "ok_json code doc = Responded \<lparr>status_code = code, body_json = Some doc\<rparr>"

definition status_only :: "int \<Rightarrow> outcome" where
  "status_only code = Responded \<lparr>status_code = code, body_json = None\<rparr>"

definition example_env :: "string \<Rightarrow> string option" where
  "example_env key =
     (if key = ''CF_API_TOKEN'' then Some ''cf-token''
      else if key = ''DESEC_API_TOKEN'' then Some ''desec-token''
      else None)"

definition example_cfg :: failover_cfg where
  "example_cfg =
     \<lparr>cfg_domain = ''example.com'', router_record = ''www'', primary_target = ''primary'',
      secondary_target = ''failover'',
      primary_check_url = ''https://primary.example.com/health'',
      secondary_check_url = ''https://failover.example.com/health'',
      expected_status = 200, timeout_seconds = 5\<rparr>"

definition zones_doc :: "string list \<Rightarrow> pyval" where
  "zones_doc ids = PDict [(PStr ''result'', PList (map (\<lambda>i. PDict [(PStr ''id'', PStr i)]) ids))]"


definition example_cf :: CloudflareClient where
  "example_cf = CloudflareClient_init ''cf-token'' cloudflare_default_url"

definition example_desec :: DeSecClient where
  "example_desec = DeSecClient_init ''desec-token'' desec_default_url"

text \<open>
  Three runs of the failover script on the example configuration. In each the zone
  lookup finds the zone \<open>z1\<close>. In the first the primary check is answered with 503 and
  the secondary check ends in a transport failure. In the other two the primary check is
  answered with 503, the secondary check with 200, and Cloudflare holds the router record
  \<open>r1\<close> with content \<open>primary.example.com\<close>; Cloudflare then answers the update with
  200 in the one and with 500 in the other.
\<close>

definition both_down_world :: world where
  "both_down_world =
     scripted [ok_json 200 (zones_doc [''z1'']), status_only 503, Raised RequestError]"



section \<open>Properties of the name derivation\<close>

lemma endswith_append [simp]: "endswith (xs @ ys) ys"
  by (simp add: endswith_def)

lemma endswith_iff: "endswith s suf \<longleftrightarrow> (\<exists>p. s = p @ suf)"
proof
  assume "endswith s suf"
  then have "s = take (length s - length suf) s @ suf"
    by (metis append_take_drop_id endswith_def)
  then show "\<exists>p. s = p @ suf" ..
next
  assume "\<exists>p. s = p @ suf"
  then show "endswith s suf" by auto
qed

lemma endswith_dot_iff: "endswith s ''.'' \<longleftrightarrow> s \<noteq> [] \<and> last s = CHR ''.''"
proof (cases s rule: rev_cases)
  case Nil
  then show ?thesis by (simp add: endswith_def)
next
  case (snoc ys y)
  then show ?thesis by (auto simp: endswith_iff)
qed

lemma DnsRecordConfig_fqdn_eq: "DnsRecordConfig_fqdn self = fqdn (domain self) (name self)"
  by (simp add: DnsRecordConfig_fqdn_def fqdn_def)

text \<open>A name without a trailing dot always resolves to the domain or to a name under it.\<close>

lemma fqdn_relative_belongs:
  "\<not> endswith n ''.'' \<Longrightarrow> fqdn d n = d \<or> endswith (fqdn d n) (''.'' @ d)"
  by (auto simp: fqdn_def endswith_iff)

text \<open>
  C1 (as stated, refuted). The claim says that \<open>subname\<close> raises for domain
  \<open>example.com\<close> and name \<open>other.org\<close>. A name without a trailing dot is relative:
  its fqdn is \<open>other.org.example.com\<close> and its subname is \<open>other.org\<close>.
\<close>

theorem subname_other_org_counterexample:
  "subname \<lparr>domain = ''example.com'', name = ''other.org'', rtype = ''A'', ttl = 300,
            rvalues = [''192.0.2.1'']\<rparr> = Inr ''other.org''"
  by code_simp

text \<open>
  C1 (amended). \<open>subname\<close> fails with a configuration error exactly for an absolute name,
  written with a trailing dot, that after the dots are stripped is neither the domain nor
  ends with a dot followed by the domain; it never fails for a name without a trailing dot.
\<close>

theorem subname_raises_iff:
  "subname self = Inl ConfigError \<longleftrightarrow>
     endswith (name self) ''.'' \<and> rstrip CHR ''.'' (name self) \<noteq> domain self \<and>
     \<not> endswith (rstrip CHR ''.'' (name self)) (''.'' @ domain self)"
proof (cases "endswith (name self) ''.''")
  case True
  then show ?thesis
    by (simp add: subname_def DnsRecordConfig_fqdn_def Let_def)
next
  case False
  then show ?thesis
    using fqdn_relative_belongs [of "name self" "domain self"]
    by (auto simp: subname_def DnsRecordConfig_fqdn_eq Let_def)
qed

theorem subname_raises_iff_witness:
  "endswith ''other.org.'' ''.'' \<and> rstrip CHR ''.'' ''other.org.'' \<noteq> ''example.com'' \<and>
   \<not> endswith (rstrip CHR ''.'' ''other.org.'') (''.'' @ ''example.com'') \<and>
   subname \<lparr>domain = ''example.com'', name = ''other.org.'', rtype = ''A'', ttl = 300,
            rvalues = [''192.0.2.1'']\<rparr> = Inl ConfigError"
proof -
  have h: "endswith ''other.org.'' ''.'' \<and> rstrip CHR ''.'' ''other.org.'' \<noteq> ''example.com'' \<and>
           \<not> endswith (rstrip CHR ''.'' ''other.org.'') (''.'' @ ''example.com'')"
    by code_simp
  then show ?thesis
    using subname_raises_iff [of "\<lparr>domain = ''example.com'', name = ''other.org.'',
      rtype = ''A'', ttl = 300, rvalues = [''192.0.2.1'']\<rparr>"]
    by simp
qed

text \<open>
  C2 (as stated, refuted). The absolute name \<open>www.\<close> resolves to \<open>www\<close>, which a second
  application reads as a relative name and resolves to \<open>www.example.com\<close>.
\<close>

theorem fqdn_idempotent_counterexample:
  "fqdn ''example.com'' (fqdn ''example.com'' ''www.'') \<noteq> fqdn ''example.com'' ''www.''"
  by code_simp

text \<open>
  C2 (amended). For a domain that is not empty and has no trailing dot, \<open>fqdn\<close> is
  idempotent on every name whose fqdn belongs to the domain (it is the domain or ends
  with a dot followed by the domain); every name without a trailing dot is such a name.
\<close>

theorem fqdn_idempotent_in_domain:
  assumes "d \<noteq> []" and "\<not> endswith d ''.''"
    and "\<not> endswith n ''.'' \<or> fqdn d n = d \<or> endswith (fqdn d n) (''.'' @ d)"
  shows "fqdn d (fqdn d n) = fqdn d n"
proof -
  have belongs: "fqdn d n = d \<or> endswith (fqdn d n) (''.'' @ d)"
    using assms(3) fqdn_relative_belongs [of n d] by blast
  have "last d \<noteq> CHR ''.''"
    using assms(1,2) by (simp add: endswith_dot_iff)
  have "\<not> endswith (fqdn d n) ''.''"
  proof (cases "fqdn d n = d")
    case True
    then show ?thesis using assms(2) by simp
  next
    case False
    with belongs obtain p where "fqdn d n = p @ ''.'' @ d"
      by (auto simp: endswith_iff)
    then show ?thesis
      using \<open>last d \<noteq> CHR ''.''\<close> assms(1) by (simp add: endswith_dot_iff)
  qed
  then show ?thesis
    using belongs by (auto simp: fqdn_def [of d "fqdn d n"])
qed

theorem fqdn_idempotent_in_domain_witness:
  "''example.com'' \<noteq> [] \<and> \<not> endswith ''example.com'' ''.'' \<and> \<not> endswith ''www'' ''.'' \<and>
   fqdn ''example.com'' (fqdn ''example.com'' ''www'') = fqdn ''example.com'' ''www''"
proof -
  have h1: "''example.com'' \<noteq> []" by simp
  have h2: "\<not> endswith ''example.com'' ''.''" by code_simp
  have h3: "\<not> endswith ''www'' ''.''" by code_simp
  show ?thesis
    using h1 h2 h3 fqdn_idempotent_in_domain [of "''example.com''" "''www''"] by blast
qed

section \<open>Properties of the provider clients\<close>

lemmas io_defs = io_bind_def io_return_def io_throw_def io_lift_def http_send_def

lemma io_bind_Inl: "m tr = (Inl e, tr') \<Longrightarrow> io_bind m f tr = (Inl e, tr')"
  by (simp add: io_bind_def)

lemma get_zone_id_unfold:
  "get_zone_id w self zn tr =
     (case w tr (zones_request self zn) of
        Raised e \<Rightarrow> Inl e
      | Responded resp \<Rightarrow>
          if status_code resp \<noteq> 200 then Inl ProviderError
          else case resp_json resp of
                 Inl e \<Rightarrow> Inl e
               | Inr result \<Rightarrow>
                  (case py_get result ''result'' of
                     Inl e \<Rightarrow> Inl e
                   | Inr r \<Rightarrow>
                       if \<not> truthy (py_or r (PList [])) then Inl ProviderError
                       else case py_getitem (py_or r (PList [])) (PInt 0) of
                              Inl e \<Rightarrow> Inl e
                            | Inr z \<Rightarrow> py_getitem z (PStr ''id'')),
      tr @ [zones_request self zn])"
  by (simp add: get_zone_id_def io_defs Let_def split: outcome.splits sum.splits)

text \<open>
  C3 (amended). \<^verbatim>\<open>get_zone_id\<close> fails with a provider error when the response status
  is not 200 and when the result of the lookup is empty (zero zones match). When the
  result lists one zone or several, it does not fail on their number: it returns the
  \<open>id\<close> of the first. Whenever it succeeds, what it returns is the \<open>id\<close> of the first
  entry of the result.
\<close>

theorem get_zone_id_result:
  "(\<forall>resp. w tr (zones_request self zn) = Responded resp \<and> status_code resp \<noteq> 200
      \<longrightarrow> fst (get_zone_id w self zn tr) = Inl ProviderError) \<and>
   (\<forall>resp kvs. w tr (zones_request self zn) = Responded resp \<and> status_code resp = 200 \<and>
       body_json resp = Some (PDict kvs) \<and> \<not> truthy (dict_get kvs ''result'' PNone)
      \<longrightarrow> fst (get_zone_id w self zn tr) = Inl ProviderError) \<and>
   (\<forall>resp kvs z zs. w tr (zones_request self zn) = Responded resp \<and> status_code resp = 200 \<and>
       body_json resp = Some (PDict kvs) \<and> dict_get kvs ''result'' PNone = PList (z # zs)
      \<longrightarrow> fst (get_zone_id w self zn tr) = py_getitem z (PStr ''id'')) \<and>
   (\<forall>v. fst (get_zone_id w self zn tr) = Inr v
      \<longrightarrow> (\<exists>resp kvs z. w tr (zones_request self zn) = Responded resp \<and>
             status_code resp = 200 \<and> body_json resp = Some (PDict kvs) \<and>
             truthy (dict_get kvs ''result'' PNone) \<and>
             py_getitem (dict_get kvs ''result'' PNone) (PInt 0) = Inr z \<and>
             py_getitem z (PStr ''id'') = Inr v))"
proof (intro conjI allI impI)
  fix resp
  assume "w tr (zones_request self zn) = Responded resp \<and> status_code resp \<noteq> 200"
  then show "fst (get_zone_id w self zn tr) = Inl ProviderError"
    by (simp add: get_zone_id_unfold)
next
  fix resp kvs
  assume "w tr (zones_request self zn) = Responded resp \<and> status_code resp = 200 \<and>
       body_json resp = Some (PDict kvs) \<and> \<not> truthy (dict_get kvs ''result'' PNone)"
  then show "fst (get_zone_id w self zn tr) = Inl ProviderError"
    by (simp add: get_zone_id_unfold resp_json_def py_get_def py_or_def)
next
  fix resp kvs z zs
  assume "w tr (zones_request self zn) = Responded resp \<and> status_code resp = 200 \<and>
       body_json resp = Some (PDict kvs) \<and> dict_get kvs ''result'' PNone = PList (z # zs)"
  then show "fst (get_zone_id w self zn tr) = py_getitem z (PStr ''id'')"
    by (simp add: get_zone_id_unfold resp_json_def py_get_def py_or_def seq_index_def
        split: sum.splits)
next
  fix v
  assume a: "fst (get_zone_id w self zn tr) = Inr v"
  then obtain resp where r: "w tr (zones_request self zn) = Responded resp"
    by (cases "w tr (zones_request self zn)") (auto simp: get_zone_id_unfold)
  from a r have st: "status_code resp = 200"
    by (auto simp: get_zone_id_unfold split: if_splits)
  from a r st obtain result where j: "body_json resp = Some result"
    by (cases "body_json resp") (auto simp: get_zone_id_unfold resp_json_def)
  from a r st j obtain kvs where k: "result = PDict kvs"
    by (cases result) (auto simp: get_zone_id_unfold resp_json_def py_get_def)
  from a r st j k have t: "truthy (dict_get kvs ''result'' PNone)"
    by (auto simp: get_zone_id_unfold resp_json_def py_get_def py_or_def split: if_splits)
  from a r st j k t obtain z where
    "py_getitem (dict_get kvs ''result'' PNone) (PInt 0) = Inr z" "py_getitem z (PStr ''id'') = Inr v"
    by (auto simp: get_zone_id_unfold resp_json_def py_get_def py_or_def split: sum.splits)
  with r st j k t show "\<exists>resp kvs z. w tr (zones_request self zn) = Responded resp \<and>
             status_code resp = 200 \<and> body_json resp = Some (PDict kvs) \<and>
             truthy (dict_get kvs ''result'' PNone) \<and>
             py_getitem (dict_get kvs ''result'' PNone) (PInt 0) = Inr z \<and>
             py_getitem z (PStr ''id'') = Inr v"
    by blast
qed

text \<open>
  C3 (as stated, refuted). The claim says that the lookup fails when more than one zone
  matches. On a response that lists two zones it returns the id of the first.
\<close>

theorem get_zone_id_many_counterexample:
  "fst (get_zone_id (scripted [ok_json 200 (zones_doc [''z1'', ''z2''])])
         (CloudflareClient_init ''token'' cloudflare_default_url) ''example.com'' [])
   = Inr (PStr ''z1'')"
  by code_simp


text \<open>
  The amended C3 at the response that lists two zones.
\<close>

theorem get_zone_id_result_witness:
  "scripted [ok_json 200 (zones_doc [''z1'', ''z2''])] []
     (zones_request (CloudflareClient_init ''token'' cloudflare_default_url) ''example.com'')
     = Responded \<lparr>status_code = 200, body_json = Some (PDict [(PStr ''result'',
         PList [PDict [(PStr ''id'', PStr ''z1'')], PDict [(PStr ''id'', PStr ''z2'')]])])\<rparr> \<and>
   fst (get_zone_id (scripted [ok_json 200 (zones_doc [''z1'', ''z2''])])
         (CloudflareClient_init ''token'' cloudflare_default_url) ''example.com'' [])
     = py_getitem (PDict [(PStr ''id'', PStr ''z1'')]) (PStr ''id'')"
proof -
  let ?w = "scripted [ok_json 200 (zones_doc [''z1'', ''z2''])]"
  let ?cf = "CloudflareClient_init ''token'' cloudflare_default_url"
  let ?kvs = "[(PStr ''result'',
         PList [PDict [(PStr ''id'', PStr ''z1'')], PDict [(PStr ''id'', PStr ''z2'')]])]"
  let ?resp = "\<lparr>status_code = 200, body_json = Some (PDict ?kvs)\<rparr>"
  have h1: "?w [] (zones_request ?cf ''example.com'') = Responded ?resp"
    by (simp add: scripted_def ok_json_def zones_doc_def)
  have h2: "dict_get ?kvs ''result'' PNone
              = PList (PDict [(PStr ''id'', PStr ''z1'')] # [PDict [(PStr ''id'', PStr ''z2'')]])"
    by (simp add: dict_get_def dict_lookup_def key_eq_def)
  from get_zone_id_result [of ?w "[]" ?cf "''example.com''"]
  have "\<forall>resp kvs z zs. ?w [] (zones_request ?cf ''example.com'') = Responded resp \<and>
       status_code resp = 200 \<and> body_json resp = Some (PDict kvs) \<and>
       dict_get kvs ''result'' PNone = PList (z # zs)
      \<longrightarrow> fst (get_zone_id ?w ?cf ''example.com'' []) = py_getitem z (PStr ''id'')"
    by blast
  from this [rule_format, of ?resp ?kvs] h1 h2
  have "fst (get_zone_id ?w ?cf ''example.com'' []) = py_getitem (PDict [(PStr ''id'', PStr ''z1'')]) (PStr ''id'')"
    by simp
  with h1 show ?thesis by simp
qed

lemma upsert_rrset_Responded:
  "w tr (rrset_request ds d sub rt t recs) = Responded resp \<Longrightarrow>
   upsert_rrset w ds d sub rt t recs tr =
     (if status_code resp = 200 \<or> status_code resp = 201 then Inr () else Inl ProviderError,
      tr @ [rrset_request ds d sub rt t recs])"
  by (simp add: upsert_rrset_def io_defs)

lemma get_dns_record_not_200:
  "w tr (records_request cf zid nm rt) = Responded resp \<Longrightarrow> status_code resp \<noteq> 200 \<Longrightarrow>
   get_dns_record w cf zid nm rt tr = (Inl ProviderError, tr @ [records_request cf zid nm rt])"
  by (simp add: get_dns_record_def io_defs)

lemma upsert_dns_record_create:
  "get_dns_record w cf zid nm rt tr = (Inr existing, tr1) \<Longrightarrow> \<not> truthy existing \<Longrightarrow>
   w tr1 (create_request cf zid (upsert_payload rt nm content t proxied)) = Responded resp \<Longrightarrow>
   upsert_dns_record w cf zid nm rt content t proxied tr =
     (if status_code resp = 200 \<or> status_code resp = 201 then Inr () else Inl ProviderError,
      tr1 @ [create_request cf zid (upsert_payload rt nm content t proxied)])"
  by (simp add: upsert_dns_record_def io_defs)

lemma upsert_dns_record_update:
  "get_dns_record w cf zid nm rt tr = (Inr existing, tr1) \<Longrightarrow> truthy existing \<Longrightarrow>
   py_getitem existing (PStr ''id'') = Inr rid \<Longrightarrow>
   w tr1 (update_request cf zid rid (upsert_payload rt nm content t proxied)) = Responded resp \<Longrightarrow>
   upsert_dns_record w cf zid nm rt content t proxied tr =
     (if status_code resp = 200 \<or> status_code resp = 201 then Inr () else Inl ProviderError,
      tr1 @ [update_request cf zid rid (upsert_payload rt nm content t proxied)])"
  by (simp add: upsert_dns_record_def io_defs)

text \<open>
  C7 (amended). Once the provider has answered the write, an upsert fails with a provider
  error exactly when the status is neither 200 nor 201, and succeeds otherwise: this holds
  for \<^verbatim>\<open>upsert_rrset\<close> and for the update and the creation of \<^verbatim>\<open>upsert_dns_record\<close>.
  The Cloudflare upsert fails with a provider error as well when the lookup before the
  write is answered with a status other than 200.
\<close>

theorem upsert_provider_error:
  "(\<forall>resp. w tr (rrset_request ds d sub rt t recs) = Responded resp \<longrightarrow>
      upsert_rrset w ds d sub rt t recs tr =
        (if status_code resp = 200 \<or> status_code resp = 201 then Inr () else Inl ProviderError,
         tr @ [rrset_request ds d sub rt t recs])) \<and>
   (\<forall>resp. w tr (records_request cf zid nm rt) = Responded resp \<and> status_code resp \<noteq> 200 \<longrightarrow>
      upsert_dns_record w cf zid nm rt content t proxied tr =
        (Inl ProviderError, tr @ [records_request cf zid nm rt])) \<and>
   (\<forall>existing tr1 resp.
      get_dns_record w cf zid nm rt tr = (Inr existing, tr1) \<and> \<not> truthy existing \<and>
      w tr1 (create_request cf zid (upsert_payload rt nm content t proxied)) = Responded resp \<longrightarrow>
      upsert_dns_record w cf zid nm rt content t proxied tr =
        (if status_code resp = 200 \<or> status_code resp = 201 then Inr () else Inl ProviderError,
         tr1 @ [create_request cf zid (upsert_payload rt nm content t proxied)])) \<and>
   (\<forall>existing tr1 rid resp.
      get_dns_record w cf zid nm rt tr = (Inr existing, tr1) \<and> truthy existing \<and>
      py_getitem existing (PStr ''id'') = Inr rid \<and>
      w tr1 (update_request cf zid rid (upsert_payload rt nm content t proxied)) = Responded resp \<longrightarrow>
      upsert_dns_record w cf zid nm rt content t proxied tr =
        (if status_code resp = 200 \<or> status_code resp = 201 then Inr () else Inl ProviderError,
         tr1 @ [update_request cf zid rid (upsert_payload rt nm content t proxied)]))"
proof (intro conjI allI impI)
  fix resp
  assume "w tr (rrset_request ds d sub rt t recs) = Responded resp"
  then show "upsert_rrset w ds d sub rt t recs tr =
        (if status_code resp = 200 \<or> status_code resp = 201 then Inr () else Inl ProviderError,
         tr @ [rrset_request ds d sub rt t recs])"
    by (rule upsert_rrset_Responded)
next
  fix resp
  assume "w tr (records_request cf zid nm rt) = Responded resp \<and> status_code resp \<noteq> 200"
  then have "get_dns_record w cf zid nm rt tr = (Inl ProviderError, tr @ [records_request cf zid nm rt])"
    by (simp add: get_dns_record_not_200)
  then show "upsert_dns_record w cf zid nm rt content t proxied tr =
        (Inl ProviderError, tr @ [records_request cf zid nm rt])"
    by (simp add: upsert_dns_record_def io_bind_Inl)
next
  fix existing tr1 resp
  assume "get_dns_record w cf zid nm rt tr = (Inr existing, tr1) \<and> \<not> truthy existing \<and>
      w tr1 (create_request cf zid (upsert_payload rt nm content t proxied)) = Responded resp"
  then show "upsert_dns_record w cf zid nm rt content t proxied tr =
        (if status_code resp = 200 \<or> status_code resp = 201 then Inr () else Inl ProviderError,
         tr1 @ [create_request cf zid (upsert_payload rt nm content t proxied)])"
    using upsert_dns_record_create by blast
next
  fix existing tr1 rid resp
  assume "get_dns_record w cf zid nm rt tr = (Inr existing, tr1) \<and> truthy existing \<and>
      py_getitem existing (PStr ''id'') = Inr rid \<and>
      w tr1 (update_request cf zid rid (upsert_payload rt nm content t proxied)) = Responded resp"
  then show "upsert_dns_record w cf zid nm rt content t proxied tr =
        (if status_code resp = 200 \<or> status_code resp = 201 then Inr () else Inl ProviderError,
         tr1 @ [update_request cf zid rid (upsert_payload rt nm content t proxied)])"
    using upsert_dns_record_update by blast
qed

text \<open>
  C7 (as stated, refuted). The claim says that an upsert succeeds on every 2xx response.
  On the success status 204 \<^verbatim>\<open>upsert_rrset\<close> raises a provider error.
\<close>

theorem upsert_rrset_204_counterexample:
  "fst (upsert_rrset (scripted [status_only 204]) (DeSecClient_init ''token'' desec_default_url)
          ''example.com'' ''www'' ''A'' 300 [''192.0.2.1''] []) = Inl ProviderError"
  by code_simp

text \<open>
  The amended C7 at a deSEC response with status 201.
\<close>

theorem upsert_provider_error_witness:
  "scripted [status_only 201] [] (rrset_request (DeSecClient_init ''token'' desec_default_url)
      ''example.com'' ''www'' ''A'' 300 [''192.0.2.1'']) = status_only 201 \<and>
   fst (upsert_rrset (scripted [status_only 201]) (DeSecClient_init ''token'' desec_default_url)
          ''example.com'' ''www'' ''A'' 300 [''192.0.2.1''] []) = Inr ()"
proof -
  let ?w = "scripted [status_only 201]"
  let ?ds = "DeSecClient_init ''token'' desec_default_url"
  let ?rq = "rrset_request ?ds ''example.com'' ''www'' ''A'' 300 [''192.0.2.1'']"
  have h: "?w [] ?rq = Responded \<lparr>status_code = 201, body_json = None\<rparr>"
    by (simp add: scripted_def status_only_def)
  from upsert_provider_error [of ?w "[]" ?ds "''example.com''" "''www''" "''A''" 300 "[''192.0.2.1'']"]
  have "\<forall>resp. ?w [] ?rq = Responded resp \<longrightarrow>
      upsert_rrset ?w ?ds ''example.com'' ''www'' ''A'' 300 [''192.0.2.1''] [] =
        (if status_code resp = 200 \<or> status_code resp = 201 then Inr () else Inl ProviderError,
         [] @ [?rq])"
    by blast
  with h have "upsert_rrset ?w ?ds ''example.com'' ''www'' ''A'' 300 [''192.0.2.1''] [] =
        (Inr (), [?rq])" by simp
  then show ?thesis using h by (simp add: status_only_def)
qed

text \<open>
  C9. \<^verbatim>\<open>check_health\<close> returns \<open>True\<close> exactly when the request is answered and the
  status of the answer is the expected one. A transport failure (\<^verbatim>\<open>httpx.RequestError\<close>,
  which a timeout is) makes it return \<open>False\<close>: it does not raise. An answer with another
  status makes it return \<open>False\<close> too.
\<close>

theorem check_health_result:
  "(fst (check_health w url expd t tr) = Inr True \<longleftrightarrow>
      (\<exists>resp. w tr (health_request url t) = Responded resp \<and> status_code resp = expd)) \<and>
   (w tr (health_request url t) = Raised RequestError \<longrightarrow>
      check_health w url expd t tr = (Inr False, tr @ [health_request url t])) \<and>
   (\<forall>resp. w tr (health_request url t) = Responded resp \<and> status_code resp \<noteq> expd \<longrightarrow>
      check_health w url expd t tr = (Inr False, tr @ [health_request url t]))"
  by (cases "w tr (health_request url t)") (auto simp: check_health_def http_send_def)

text \<open>
  C9 at a request that ends in a transport failure.
\<close>

theorem check_health_result_witness:
  "scripted [Raised RequestError] [] (health_request ''https://primary.example.com/health'' 5)
     = Raised RequestError \<and>
   check_health (scripted [Raised RequestError]) ''https://primary.example.com/health'' 200 5 []
     = (Inr False, [health_request ''https://primary.example.com/health'' 5])"
proof -
  have h: "scripted [Raised RequestError] [] (health_request ''https://primary.example.com/health'' 5)
     = Raised RequestError"
    by (simp add: scripted_def)
  then show ?thesis
    using check_health_result [of "scripted [Raised RequestError]"
        "''https://primary.example.com/health''" 200 5 "[]"]
    by simp
qed

section \<open>Properties of the failover routine\<close>




lemma provider_writes_append [simp]:
  "provider_writes (xs @ ys) = provider_writes xs @ provider_writes ys"
  by (simp add: provider_writes_def)

lemma provider_writes_Nil [simp]: "provider_writes [] = []"
  by (simp add: provider_writes_def)

lemma provider_writes_Cons [simp]:
  "provider_writes (rq # rqs) = (if is_write rq then rq # provider_writes rqs else provider_writes rqs)"
  by (simp add: provider_writes_def)

lemma is_write_reads [simp]:
  "\<not> is_write (zones_request cf zn)"
  "\<not> is_write (records_request cf zid nm rt)"
  "\<not> is_write (health_request url t)"
  by (simp_all add: is_write_def zones_request_def records_request_def health_request_def)

lemma get_zone_id_trace: "snd (get_zone_id w cf zn tr) = tr @ [zones_request cf zn]"
  by (simp add: get_zone_id_def io_defs Let_def split: outcome.splits sum.splits)

lemma get_dns_record_trace:
  "snd (get_dns_record w cf zid nm rt tr) = tr @ [records_request cf zid nm rt]"
  by (simp add: get_dns_record_def io_defs Let_def split: outcome.splits sum.splits)

lemma check_health_trace: "snd (check_health w url e t tr) = tr @ [health_request url t]"
  by (simp add: check_health_def io_defs split: outcome.splits)

lemma current_target_info_trace:
  "snd (current_target_info w cf zid nm tr) = tr @ [records_request cf zid nm ''CNAME'']"
proof (cases "get_dns_record w cf zid nm ''CNAME'' tr")
  case (Pair r tr')
  with get_dns_record_trace [of w cf zid nm "''CNAME''" tr]
  have "tr' = tr @ [records_request cf zid nm ''CNAME'']" by simp
  with Pair show ?thesis
    by (cases r) (simp_all add: current_target_info_def io_defs)
qed

lemma failover_setup_writes: "provider_writes (snd (failover_setup cfg env w tr)) = provider_writes tr"
proof (cases "get_env_or_raise env ''CF_API_TOKEN''")
  case (Inl e)
  then show ?thesis by (simp add: failover_setup_def io_defs)
next
  case cf: (Inr cf_token)
  show ?thesis
  proof (cases "get_env_or_raise env ''DESEC_API_TOKEN''")
    case (Inl e)
    with cf show ?thesis by (simp add: failover_setup_def io_defs)
  next
    case ds: (Inr desec_token)
    let ?cf = "CloudflareClient_init cf_token cloudflare_default_url"
    obtain r tr' where z: "get_zone_id w ?cf (cfg_domain cfg) tr = (r, tr')"
      by (cases "get_zone_id w ?cf (cfg_domain cfg) tr")
    with get_zone_id_trace [of w ?cf "cfg_domain cfg" tr]
    have "tr' = tr @ [zones_request ?cf (cfg_domain cfg)]" by simp
    with cf ds z show ?thesis
      by (cases r) (simp_all add: failover_setup_def io_bind_def io_lift_def io_return_def Let_def)
  qed
qed

lemma desired_target_writes: "provider_writes (snd (desired_target w cfg tr)) = provider_writes tr"
proof -
  let ?p = "check_health w (primary_check_url cfg) (expected_status cfg) (timeout_seconds cfg)"
  let ?s = "check_health w (secondary_check_url cfg) (expected_status cfg) (timeout_seconds cfg)"
  obtain r tr' where p: "?p tr = (r, tr')" by (cases "?p tr")
  with check_health_trace [of w _ _ _ tr]
  have tr': "tr' = tr @ [health_request (primary_check_url cfg) (timeout_seconds cfg)]"
    by (metis snd_conv)
  obtain r2 tr'' where s: "?s tr' = (r2, tr'')" by (cases "?s tr'")
  with check_health_trace [of w _ _ _ tr']
  have tr'': "tr'' = tr' @ [health_request (secondary_check_url cfg) (timeout_seconds cfg)]"
    by (metis snd_conv)
  show ?thesis
  proof (cases r)
    case (Inl e)
    with p tr' show ?thesis by (simp add: desired_target_def io_bind_def)
  next
    case (Inr ok)
    with p s tr' tr'' show ?thesis
      by (cases r2) (simp_all add: desired_target_def io_bind_def io_return_def)
  qed
qed

lemma current_target_info_writes:
  "provider_writes (snd (current_target_info w cf zid nm tr)) = provider_writes tr"
  by (simp add: current_target_info_trace)

text \<open>
  C4. When the primary check is answered with the expected status, the desired target is
  the fqdn of the primary target, and the secondary check is not even sent: the only
  request added is the primary check, so nothing the secondary would answer has a part in
  the result. The run then goes on, from there, with the primary target.
\<close>

theorem primary_healthy_desired_primary:
  assumes "w tr (health_request (primary_check_url cfg) (timeout_seconds cfg)) = Responded resp"
    and "status_code resp = expected_status cfg"
  shows "desired_target w cfg tr =
           (Inr (Some (primary_fqdn cfg)),
            tr @ [health_request (primary_check_url cfg) (timeout_seconds cfg)]) \<and>
         (\<forall>ctx. failover_setup cfg env w [] = (Inr ctx, tr) \<longrightarrow>
            run_failover cfg env w [] =
              apply_target w cfg ctx (fqdn (cfg_domain cfg) (primary_target cfg))
                (tr @ [health_request (primary_check_url cfg) (timeout_seconds cfg)]))"
proof -
  have d: "desired_target w cfg tr =
           (Inr (Some (primary_fqdn cfg)),
            tr @ [health_request (primary_check_url cfg) (timeout_seconds cfg)])"
    using assms by (simp add: desired_target_def check_health_def io_defs)
  then show ?thesis
    by (simp add: run_failover_def io_bind_def primary_fqdn_def)
qed

text \<open>
  C4 at the example configuration, with a primary check answered with status 200.
\<close>

theorem primary_healthy_desired_primary_witness:
  "scripted [status_only 200] []
     (health_request (primary_check_url example_cfg) (timeout_seconds example_cfg))
     = Responded \<lparr>status_code = 200, body_json = None\<rparr> \<and>
   status_code \<lparr>status_code = 200, body_json = None\<rparr> = expected_status example_cfg \<and>
   fst (desired_target (scripted [status_only 200]) example_cfg [])
     = Inr (Some ''primary.example.com'')"
proof -
  have h1: "scripted [status_only 200] []
     (health_request (primary_check_url example_cfg) (timeout_seconds example_cfg))
     = Responded \<lparr>status_code = 200, body_json = None\<rparr>"
    by (simp add: scripted_def status_only_def)
  have h2: "status_code \<lparr>status_code = 200, body_json = None\<rparr> = expected_status example_cfg"
    by (simp add: example_cfg_def)
  have p: "primary_fqdn example_cfg = ''primary.example.com''"
    by code_simp
  from primary_healthy_desired_primary
         [where w = "scripted [status_only 200]" and tr = "[]" and cfg = example_cfg, OF h1 h2]
  have "fst (desired_target (scripted [status_only 200]) example_cfg [])
          = Inr (Some (primary_fqdn example_cfg))"
    by simp
  with h1 h2 p show ?thesis by simp
qed

section \<open>Properties of the zone configuration loader\<close>















section \<open>Properties of a whole failover run\<close>

lemma run_failover_cases:
  "run_failover cfg env w tr0 =
     (case failover_setup cfg env w tr0 of
        (Inl e, tr1) \<Rightarrow> (Inl e, tr1)
      | (Inr ctx, tr1) \<Rightarrow>
          (case desired_target w cfg tr1 of
             (Inl e, tr2) \<Rightarrow> (Inl e, tr2)
           | (Inr None, tr2) \<Rightarrow> (Inr (), tr2)
           | (Inr (Some target), tr2) \<Rightarrow> apply_target w cfg ctx target tr2))"
  by (simp add: run_failover_def io_bind_def io_return_def split: prod.splits sum.splits option.splits)

lemma apply_target_cases:
  "apply_target w cfg ctx target tr2 =
     (case current_target_info w (ctx_cf ctx) (ctx_zone_id ctx) (router_fqdn cfg) tr2 of
        (Inl e, tr3) \<Rightarrow> (Inl e, tr3)
      | (Inr current, tr3) \<Rightarrow>
          if current = PStr target then (Inr (), tr3)
          else set_router_target w (ctx_cf ctx) (ctx_desec ctx) (cfg_domain cfg) (ctx_zone_id ctx)
                 (router_record cfg) (router_fqdn cfg) target 60 tr3)"
  by (simp add: apply_target_def io_bind_def io_return_def split: prod.splits sum.splits)

lemma setup_writes:
  "failover_setup cfg env w [] = (r, tr1) \<Longrightarrow> provider_writes tr1 = []"
  using failover_setup_writes [of cfg env w "[]"] by simp

lemma desired_writes:
  "desired_target w cfg tr1 = (r, tr2) \<Longrightarrow> provider_writes tr2 = provider_writes tr1"
  using desired_target_writes [of w cfg tr1] by simp

lemma current_writes:
  "current_target_info w cf zid nm tr2 = (r, tr3) \<Longrightarrow> provider_writes tr3 = provider_writes tr2"
  using current_target_info_writes [of w cf zid nm tr2] by simp

lemma desired_target_None:
  assumes "check_health w (primary_check_url cfg) (expected_status cfg) (timeout_seconds cfg) tr1
             = (Inr False, tr2)"
    and "check_health w (secondary_check_url cfg) (expected_status cfg) (timeout_seconds cfg) tr2
             = (Inr False, tr3)"
  shows "desired_target w cfg tr1 = (Inr None, tr3)"
  using assms by (simp add: desired_target_def io_bind_def io_return_def)

lemma desired_target_Some:
  assumes "desired_target w cfg tr1 = (Inr (Some target), tr2)"
  shows "(target = primary_fqdn cfg \<and>
          fst (check_health w (primary_check_url cfg) (expected_status cfg) (timeout_seconds cfg) tr1)
            = Inr True) \<or>
         (target = secondary_fqdn cfg \<and>
          fst (check_health w (primary_check_url cfg) (expected_status cfg) (timeout_seconds cfg) tr1)
            = Inr False \<and>
          fst (check_health w (secondary_check_url cfg) (expected_status cfg) (timeout_seconds cfg)
                 (tr1 @ [health_request (primary_check_url cfg) (timeout_seconds cfg)]))
            = Inr True)"
proof -
  let ?p = "check_health w (primary_check_url cfg) (expected_status cfg) (timeout_seconds cfg)"
  let ?s = "check_health w (secondary_check_url cfg) (expected_status cfg) (timeout_seconds cfg)"
  obtain r tr' where p: "?p tr1 = (r, tr')" by (cases "?p tr1")
  with check_health_trace [of w _ _ _ tr1]
  have tr': "tr' = tr1 @ [health_request (primary_check_url cfg) (timeout_seconds cfg)]"
    by (metis snd_conv)
  obtain r2 tr'' where s: "?s tr' = (r2, tr'')" by (cases "?s tr'")
  from assms p obtain ok where ok: "r = Inr ok"
    by (cases r) (auto simp: desired_target_def io_bind_def)
  show ?thesis
  proof (cases ok)
    case True
    with assms p ok show ?thesis
      by (simp add: desired_target_def io_bind_def io_return_def)
  next
    case False
    with assms p ok s obtain ok2 where ok2: "r2 = Inr ok2"
      by (cases r2) (auto simp: desired_target_def io_bind_def)
    with assms p ok s False have "ok2 \<and> target = secondary_fqdn cfg"
      by (cases ok2) (simp_all add: desired_target_def io_bind_def io_return_def)
    with p ok False s ok2 tr' show ?thesis by simp
  qed
qed

text \<open>
  C5. A run of the failover script sends no \<open>PUT\<close> and no \<open>POST\<close> when both health
  checks return \<open>False\<close>, and none when the content that \<^verbatim>\<open>current_target_info\<close> reads
  from Cloudflare is the desired target; in both cases the run ends normally. If a run
  sends a write at all, then the setup succeeded, a desired target was chosen whose own
  health check returned \<open>True\<close>, the current content was read, and it differs from that
  target.
\<close>

theorem failover_writes_only_on_change:
  "(\<forall>ctx tr1 tr2 tr3.
      failover_setup cfg env w [] = (Inr ctx, tr1) \<and>
      check_health w (primary_check_url cfg) (expected_status cfg) (timeout_seconds cfg) tr1
        = (Inr False, tr2) \<and>
      check_health w (secondary_check_url cfg) (expected_status cfg) (timeout_seconds cfg) tr2
        = (Inr False, tr3)
    \<longrightarrow> run_failover cfg env w [] = (Inr (), tr3) \<and> provider_writes tr3 = []) \<and>
   (\<forall>ctx tr1 target tr2 tr3.
      failover_setup cfg env w [] = (Inr ctx, tr1) \<and>
      desired_target w cfg tr1 = (Inr (Some target), tr2) \<and>
      current_target_info w (ctx_cf ctx) (ctx_zone_id ctx) (router_fqdn cfg) tr2
        = (Inr (PStr target), tr3)
    \<longrightarrow> run_failover cfg env w [] = (Inr (), tr3) \<and> provider_writes tr3 = []) \<and>
   (provider_writes (snd (run_failover cfg env w [])) \<noteq> []
    \<longrightarrow> (\<exists>ctx tr1 target tr2 current tr3.
          failover_setup cfg env w [] = (Inr ctx, tr1) \<and>
          desired_target w cfg tr1 = (Inr (Some target), tr2) \<and>
          ((target = primary_fqdn cfg \<and>
            fst (check_health w (primary_check_url cfg) (expected_status cfg)
                   (timeout_seconds cfg) tr1) = Inr True) \<or>
           (target = secondary_fqdn cfg \<and>
            fst (check_health w (primary_check_url cfg) (expected_status cfg)
                   (timeout_seconds cfg) tr1) = Inr False \<and>
            fst (check_health w (secondary_check_url cfg) (expected_status cfg)
                   (timeout_seconds cfg)
                   (tr1 @ [health_request (primary_check_url cfg) (timeout_seconds cfg)]))
              = Inr True)) \<and>
          current_target_info w (ctx_cf ctx) (ctx_zone_id ctx) (router_fqdn cfg) tr2
            = (Inr current, tr3) \<and>
          current \<noteq> PStr target))"
proof -
  have both_fail: "run_failover cfg env w [] = (Inr (), tr3) \<and> provider_writes tr3 = []"
    if s: "failover_setup cfg env w [] = (Inr ctx, tr1)"
    and p: "check_health w (primary_check_url cfg) (expected_status cfg) (timeout_seconds cfg) tr1
        = (Inr False, tr2)"
    and q: "check_health w (secondary_check_url cfg) (expected_status cfg) (timeout_seconds cfg) tr2
        = (Inr False, tr3)"
    for ctx tr1 tr2 tr3
  proof -
    have d: "desired_target w cfg tr1 = (Inr None, tr3)"
      by (rule desired_target_None [OF p q])
    with s have "run_failover cfg env w [] = (Inr (), tr3)"
      by (simp add: run_failover_cases)
    moreover from setup_writes [OF s] desired_writes [OF d] have "provider_writes tr3 = []"
      by simp
    ultimately show ?thesis by simp
  qed
  have same: "run_failover cfg env w [] = (Inr (), tr3) \<and> provider_writes tr3 = []"
    if s: "failover_setup cfg env w [] = (Inr ctx, tr1)"
    and d: "desired_target w cfg tr1 = (Inr (Some target), tr2)"
    and c: "current_target_info w (ctx_cf ctx) (ctx_zone_id ctx) (router_fqdn cfg) tr2
        = (Inr (PStr target), tr3)"
    for ctx tr1 target tr2 tr3
  proof -
    from s d c have "run_failover cfg env w [] = (Inr (), tr3)"
      by (simp add: run_failover_cases apply_target_cases)
    moreover from setup_writes [OF s] desired_writes [OF d] current_writes [OF c]
    have "provider_writes tr3 = []" by simp
    ultimately show ?thesis by simp
  qed
  have only: "\<exists>ctx tr1 target tr2 current tr3.
          failover_setup cfg env w [] = (Inr ctx, tr1) \<and>
          desired_target w cfg tr1 = (Inr (Some target), tr2) \<and>
          ((target = primary_fqdn cfg \<and>
            fst (check_health w (primary_check_url cfg) (expected_status cfg)
                   (timeout_seconds cfg) tr1) = Inr True) \<or>
           (target = secondary_fqdn cfg \<and>
            fst (check_health w (primary_check_url cfg) (expected_status cfg)
                   (timeout_seconds cfg) tr1) = Inr False \<and>
            fst (check_health w (secondary_check_url cfg) (expected_status cfg)
                   (timeout_seconds cfg)
                   (tr1 @ [health_request (primary_check_url cfg) (timeout_seconds cfg)]))
              = Inr True)) \<and>
          current_target_info w (ctx_cf ctx) (ctx_zone_id ctx) (router_fqdn cfg) tr2
            = (Inr current, tr3) \<and>
          current \<noteq> PStr target"
    if wr: "provider_writes (snd (run_failover cfg env w [])) \<noteq> []"
  proof -
    obtain r1 tr1 where s: "failover_setup cfg env w [] = (r1, tr1)"
      by (cases "failover_setup cfg env w []")
    from wr s setup_writes [OF s] obtain ctx where ctx: "r1 = Inr ctx"
      by (cases r1) (auto simp: run_failover_cases)
    obtain r2 tr2 where d: "desired_target w cfg tr1 = (r2, tr2)"
      by (cases "desired_target w cfg tr1")
    have w2: "provider_writes tr2 = []"
      using setup_writes [OF s] desired_writes [OF d] by simp
    from wr s ctx d w2 obtain dt where dt: "r2 = Inr dt"
      by (cases r2) (auto simp: run_failover_cases)
    from wr s ctx d w2 dt obtain target where target: "dt = Some target"
      by (cases dt) (auto simp: run_failover_cases)
    obtain r3 tr3 where
      c: "current_target_info w (ctx_cf ctx) (ctx_zone_id ctx) (router_fqdn cfg) tr2 = (r3, tr3)"
      by (cases "current_target_info w (ctx_cf ctx) (ctx_zone_id ctx) (router_fqdn cfg) tr2")
    have w3: "provider_writes tr3 = []"
      using w2 current_writes [OF c] by simp
    from wr s ctx d dt target c w3 obtain current where current: "r3 = Inr current"
      by (cases r3) (auto simp: run_failover_cases apply_target_cases)
    from wr s ctx d dt target c w3 current have ne: "current \<noteq> PStr target"
      by (auto simp: run_failover_cases apply_target_cases)
    from d dt target have d': "desired_target w cfg tr1 = (Inr (Some target), tr2)" by simp
    from desired_target_Some [OF d'] s ctx d' c current ne show ?thesis by blast
  qed
  from both_fail same only show ?thesis by blast
qed


text \<open>
  C5 at the run in which both checks fail.
\<close>

theorem failover_writes_only_on_change_witness:
  "failover_setup example_cfg example_env both_down_world []
     = (Inr \<lparr>ctx_cf = example_cf, ctx_desec = example_desec, ctx_zone_id = PStr ''z1''\<rparr>,
        [zones_request example_cf ''example.com'']) \<and>
   check_health both_down_world (primary_check_url example_cfg) (expected_status example_cfg)
       (timeout_seconds example_cfg) [zones_request example_cf ''example.com'']
     = (Inr False, [zones_request example_cf ''example.com'',
                    health_request ''https://primary.example.com/health'' 5]) \<and>
   check_health both_down_world (secondary_check_url example_cfg) (expected_status example_cfg)
       (timeout_seconds example_cfg)
       [zones_request example_cf ''example.com'',
        health_request ''https://primary.example.com/health'' 5]
     = (Inr False, [zones_request example_cf ''example.com'',
                    health_request ''https://primary.example.com/health'' 5,
                    health_request ''https://failover.example.com/health'' 5]) \<and>
   run_failover example_cfg example_env both_down_world []
     = (Inr (), [zones_request example_cf ''example.com'',
                 health_request ''https://primary.example.com/health'' 5,
                 health_request ''https://failover.example.com/health'' 5]) \<and>
   provider_writes [zones_request example_cf ''example.com'',
                    health_request ''https://primary.example.com/health'' 5,
                    health_request ''https://failover.example.com/health'' 5] = []"
proof -
  let ?ctx = "\<lparr>ctx_cf = example_cf, ctx_desec = example_desec, ctx_zone_id = PStr ''z1''\<rparr>"
  let ?tr1 = "[zones_request example_cf ''example.com'']"
  let ?tr2 = "[zones_request example_cf ''example.com'',
               health_request ''https://primary.example.com/health'' 5]"
  let ?tr3 = "[zones_request example_cf ''example.com'',
               health_request ''https://primary.example.com/health'' 5,
               health_request ''https://failover.example.com/health'' 5]"
  have h1: "failover_setup example_cfg example_env both_down_world [] = (Inr ?ctx, ?tr1)"
    by code_simp
  have h2: "check_health both_down_world (primary_check_url example_cfg)
              (expected_status example_cfg) (timeout_seconds example_cfg) ?tr1 = (Inr False, ?tr2)"
    by code_simp
  have h3: "check_health both_down_world (secondary_check_url example_cfg)
              (expected_status example_cfg) (timeout_seconds example_cfg) ?tr2 = (Inr False, ?tr3)"
    by code_simp
  from failover_writes_only_on_change [of example_cfg example_env both_down_world]
  have "\<forall>ctx tr1 tr2 tr3.
      failover_setup example_cfg example_env both_down_world [] = (Inr ctx, tr1) \<and>
      check_health both_down_world (primary_check_url example_cfg) (expected_status example_cfg)
        (timeout_seconds example_cfg) tr1 = (Inr False, tr2) \<and>
      check_health both_down_world (secondary_check_url example_cfg) (expected_status example_cfg)
        (timeout_seconds example_cfg) tr2 = (Inr False, tr3)
    \<longrightarrow> run_failover example_cfg example_env both_down_world [] = (Inr (), tr3) \<and>
        provider_writes tr3 = []"
    by blast
  from this [rule_format, of ?ctx ?tr1 ?tr2 ?tr3] h1 h2 h3
  have "run_failover example_cfg example_env both_down_world [] = (Inr (), ?tr3) \<and>
        provider_writes ?tr3 = []"
    by blast
  with h1 h2 h3 show ?thesis by blast
qed

lemma is_write_cf_writes [simp]:
  "is_write (update_request cf zid rid payload)"
  "is_write (create_request cf zid payload)"
  "is_write (rrset_request ds d sub rt t recs)"
  by (simp_all add: is_write_def update_request_def create_request_def rrset_request_def Let_def)








end
